theory Spec2Isabelle
  imports Main
begin

section \<open>The Dreamer file providers (dreamer/providers)\<close>

text \<open>
  The development embeds the two state storage providers of Dreamer,
  \<^verbatim>\<open>AWSFileProvider\<close> (dreamer/providers/aws.py) and \<^verbatim>\<open>LocalFileProvider\<close>
  (dreamer/providers/local.py). Both act on things outside the Python process: the
  local filesystem (through \<^verbatim>\<open>pathlib\<close> and \<^verbatim>\<open>shutil\<close>) and an S3 bucket (through
  \<^verbatim>\<open>boto3\<close>). These are made explicit as a \<open>world\<close> value that every operation takes and
  returns; the attributes of the provider object are a record that is passed the same
  way. An exception is a value \<open>Inl e\<close>; since a Python exception leaves every mutation
  made before it in place, a failing operation still returns the provider and the world
  it leaves behind.
\<close>

subsection \<open>Exceptions\<close>

text \<open>
  \<^verbatim>\<open>DreamerException\<close> is one Python class raised with four different messages; the
  message is kept so that the version conflict raised by \<^verbatim>\<open>sync()\<close> can be told apart
  from the "called without default_module and default_project set" failures.
\<close>

datatype dreamer_msg =
    Remote_state_modified
  | No_default_in_get_remote_version
  | No_default_in_sync_project
  | No_default_in_get_default_local_path

datatype error =
    DreamerException dreamer_msg
  | ValueError
  | IndexError
  | FileNotFoundError
  | FileExistsError
  | NotADirectoryError
  | IsADirectoryError
  | DirectoryNotEmptyError
  | OSError
  | JSONDecodeError
  | ClientError string
  | OtherTransportError string

text \<open>
  \<open>ClientError code\<close> is \<^verbatim>\<open>botocore.exceptions.ClientError\<close> with the error code of the
  response (\<open>''404''\<close> for a missing object, \<open>''403''\<close> for a denied request, ...).
  \<open>OtherTransportError\<close> is any exception of the transport that is not a
  \<^verbatim>\<open>ClientError\<close> (an unreachable endpoint, a read timeout, ...). \<open>OSError\<close> is an
  \<^verbatim>\<open>OSError\<close> of none of the subclasses listed.
\<close>

subsection \<open>The local filesystem\<close>

text \<open>
  A \<^verbatim>\<open>pathlib.Path\<close> is the list of its components, read from the root (the working
  directory of the process is taken to be the root, and there are no symbolic links).
  \<^verbatim>\<open>p / s\<close> parses the string \<open>s\<close> as \<^verbatim>\<open>pathlib\<close> does: it is cut at every slash,
  empty components and \<^verbatim>\<open>.\<close> are dropped, \<^verbatim>\<open>..\<close> is kept as a component, and a string
  that starts with a slash replaces the path on its left.

  The content of a file is either raw bytes or the JSON text that
  \<^verbatim>\<open>json.dump({'version': v, 'author': a}, ...)\<close> writes: \<open>Meta_json v a\<close> is the
  content on which \<^verbatim>\<open>json.load(f)\<close> gives back that dictionary, and on \<open>Raw\<close> bytes
  reading the version fails.
\<close>

type_synonym path = "string list"

primrec split_slash :: "string \<Rightarrow> string \<Rightarrow> string list" where
  "split_slash acc [] = [rev acc]"
| "split_slash acc (c # cs) =
     (if c = CHR ''/'' then rev acc # split_slash [] cs else split_slash (c # acc) cs)"

definition parts :: "string \<Rightarrow> path" where
  "parts s = filter (\<lambda>c. c \<noteq> [] \<and> c \<noteq> ''.'') (split_slash [] s)"

definition joinpath :: "path \<Rightarrow> string \<Rightarrow> path" where
  "joinpath p s = (if s \<noteq> [] \<and> hd s = CHR ''/'' then parts s else p @ parts s)"

text \<open>
  A name that is one path component: not empty, without a slash, and neither \<^verbatim>\<open>.\<close>
  nor \<^verbatim>\<open>..\<close>.
\<close>

definition single_component :: "string \<Rightarrow> bool" where
  "single_component s = (s \<noteq> [] \<and> CHR ''/'' \<notin> set s \<and> s \<noteq> ''.'' \<and> s \<noteq> ''..'')"

datatype body = Raw string | Meta_json int string

datatype node = Dir | File body

text \<open>
  The disk lists every directory and file under the path that leads to it from the root,
  a path without \<^verbatim>\<open>..\<close>; the root itself is a directory and is not listed. A path is
  resolved as the operating system does it, component by component from the root: each
  directory passed must be there (\<^verbatim>\<open>ENOENT\<close> otherwise, \<^verbatim>\<open>FileNotFoundError\<close>) and must
  be a directory (\<^verbatim>\<open>ENOTDIR\<close> otherwise, \<^verbatim>\<open>NotADirectoryError\<close>), and \<^verbatim>\<open>..\<close> goes
  up one level. So an entry is only reachable when all its ancestors are listed as
  directories. \<open>walk\<close> resolves all components and checks all directories passed on
  the way, but not the last one reached, which may not exist.
\<close>

type_synonym filesystem = "(path \<times> node) list"

definition starts_with :: "'a list \<Rightarrow> 'a list \<Rightarrow> bool" where
  "starts_with pre xs = (take (length pre) xs = pre)"

definition entry :: "filesystem \<Rightarrow> path \<Rightarrow> node option" where
  "entry fsys q = (if q = [] then Some Dir else map_of fsys q)"

fun walk :: "filesystem \<Rightarrow> path \<Rightarrow> path \<Rightarrow> error + path" where
  "walk fsys cur [] = Inr cur"
| "walk fsys cur (c # cs) =
     (case entry fsys cur of
        None \<Rightarrow> Inl FileNotFoundError
      | Some (File b) \<Rightarrow> Inl NotADirectoryError
      | Some Dir \<Rightarrow> walk fsys (if c = ''..'' then butlast cur else cur @ [c]) cs)"

text \<open>\<^verbatim>\<open>os.stat\<close>: where the path leads and what is there.\<close>

definition stat :: "filesystem \<Rightarrow> path \<Rightarrow> error + (path \<times> node)" where
  "stat fsys p =
     (case walk fsys [] p of
        Inl e \<Rightarrow> Inl e
      | Inr q \<Rightarrow> (case entry fsys q of None \<Rightarrow> Inl FileNotFoundError | Some n \<Rightarrow> Inr (q, n)))"

definition lookup :: "filesystem \<Rightarrow> path \<Rightarrow> node option" where
  "lookup fsys p = (case stat fsys p of Inl e \<Rightarrow> None | Inr qn \<Rightarrow> Some (snd qn))"

text \<open>\<^verbatim>\<open>Path.exists()\<close> and \<^verbatim>\<open>Path.is_dir()\<close>: false when the path cannot be resolved.\<close>

definition exists_path :: "filesystem \<Rightarrow> path \<Rightarrow> bool" where
  "exists_path fsys p = (lookup fsys p \<noteq> None)"

definition is_dir :: "filesystem \<Rightarrow> path \<Rightarrow> bool" where
  "is_dir fsys p = (lookup fsys p = Some Dir)"

definition put_node :: "path \<Rightarrow> node \<Rightarrow> filesystem \<Rightarrow> filesystem" where
  "put_node q n fsys = (q, n) # filter (\<lambda>e. fst e \<noteq> q) fsys"

text \<open>What is listed directly in the directory listed under \<open>q\<close>.\<close>

definition children :: "filesystem \<Rightarrow> path \<Rightarrow> path list" where
  "children fsys q = filter (\<lambda>k. k \<noteq> [] \<and> butlast k = q) (map fst fsys)"

text \<open>The paths \<^verbatim>\<open>Path.glob('*')\<close> yields: nothing for what is not a directory.\<close>

definition glob_star :: "filesystem \<Rightarrow> path \<Rightarrow> path list" where
  "glob_star fsys p =
     (case stat fsys p of
        Inl e \<Rightarrow> []
      | Inr qn \<Rightarrow> (case snd qn of Dir \<Rightarrow> children fsys (fst qn) | File b \<Rightarrow> []))"

text \<open>\<^verbatim>\<open>os.mkdir\<close>, that is \<^verbatim>\<open>Path.mkdir()\<close> with \<^verbatim>\<open>parents=False, exist_ok=False\<close>.\<close>

definition mkdir :: "path \<Rightarrow> filesystem \<Rightarrow> error + filesystem" where
  "mkdir p fsys =
     (case walk fsys [] p of
        Inl e \<Rightarrow> Inl e
      | Inr q \<Rightarrow>
          (case entry fsys q of
             Some n \<Rightarrow> Inl FileExistsError
           | None \<Rightarrow> Inr (put_node q Dir fsys)))"

text \<open>
  \<^verbatim>\<open>Path.mkdir(mode=0o700, parents=True, exist_ok=True)\<close>, as \<^verbatim>\<open>pathlib\<close> has it: try
  \<^verbatim>\<open>os.mkdir\<close>; on \<^verbatim>\<open>FileNotFoundError\<close> make the parent in the same way and try once
  more; any other \<^verbatim>\<open>OSError\<close> is passed over when the path is a directory.
\<close>

function mkdir_parents :: "path \<Rightarrow> filesystem \<Rightarrow> (error + unit) \<times> filesystem" where
  "mkdir_parents p fsys =
     (case mkdir p fsys of
        Inr fs1 \<Rightarrow> (Inr (), fs1)
      | Inl e \<Rightarrow>
          (if e = FileNotFoundError then
             (if p = [] then (Inl e, fsys)
              else
                (case mkdir_parents (butlast p) fsys of
                   (Inl e1, fs1) \<Rightarrow> (Inl e1, fs1)
                 | (Inr u, fs1) \<Rightarrow>
                     (case mkdir p fs1 of
                        Inr fs2 \<Rightarrow> (Inr (), fs2)
                      | Inl e2 \<Rightarrow>
                          (if e2 \<noteq> FileNotFoundError \<and> is_dir fs1 p then (Inr (), fs1)
                           else (Inl e2, fs1)))))
           else (if is_dir fsys p then (Inr (), fsys) else (Inl e, fsys))))"
  by pat_completeness auto
termination
  by (relation "measure (\<lambda>(p, fsys). length p)") auto

declare mkdir_parents.simps [simp del]

text \<open>\<^verbatim>\<open>Path.touch()\<close> (\<^verbatim>\<open>exist_ok=True\<close>): an existing path only gets a new timestamp.\<close>

definition touch :: "path \<Rightarrow> filesystem \<Rightarrow> error + filesystem" where
  "touch p fsys =
     (case walk fsys [] p of
        Inl e \<Rightarrow> Inl e
      | Inr q \<Rightarrow>
          (case entry fsys q of
             Some n \<Rightarrow> Inr fsys
           | None \<Rightarrow> Inr (put_node q (File (Raw [])) fsys)))"

text \<open>Opening a path for writing and storing a content in it (truncating what was there).\<close>

definition write_file :: "path \<Rightarrow> body \<Rightarrow> filesystem \<Rightarrow> error + filesystem" where
  "write_file p b fsys =
     (case walk fsys [] p of
        Inl e \<Rightarrow> Inl e
      | Inr q \<Rightarrow>
          (case entry fsys q of
             Some Dir \<Rightarrow> Inl IsADirectoryError
           | _ \<Rightarrow> Inr (put_node q (File b) fsys)))"

text \<open>
  \<^verbatim>\<open>shutil.rmtree(p)\<close>: the directory and everything below it. On the root directory
  the call fails; what it removes there before it fails is not modelled, and no property
  below is about that case.
\<close>

definition rmtree :: "path \<Rightarrow> filesystem \<Rightarrow> error + filesystem" where
  "rmtree p fsys =
     (case stat fsys p of
        Inl e \<Rightarrow> Inl e
      | Inr qn \<Rightarrow>
          (case snd qn of
             File b \<Rightarrow> Inl NotADirectoryError
           | Dir \<Rightarrow>
               (if fst qn = [] then Inl OSError
                else Inr (filter (\<lambda>e. \<not> starts_with (fst qn) (fst e)) fsys))))"

text \<open>\<^verbatim>\<open>Path.rmdir()\<close>: only an empty directory, and not the root.\<close>

definition rmdir :: "path \<Rightarrow> filesystem \<Rightarrow> error + filesystem" where
  "rmdir p fsys =
     (case stat fsys p of
        Inl e \<Rightarrow> Inl e
      | Inr qn \<Rightarrow>
          (case snd qn of
             File b \<Rightarrow> Inl NotADirectoryError
           | Dir \<Rightarrow>
               (if fst qn = [] then Inl OSError
                else if children fsys (fst qn) = [] then Inr (filter (\<lambda>e. fst e \<noteq> fst qn) fsys)
                else Inl DirectoryNotEmptyError)))"

subsection \<open>The object store\<close>

text \<open>
  The bucket is a list of keys with their objects (content and the user metadata given
  as \<^verbatim>\<open>extra_args\<close> at upload). Every request the provider issues is appended to a
  journal, \<open>requests\<close>, so that the order of requests and the absence of a request can
  be stated. \<open>fault\<close> is the behaviour of the transport: the exception, if any, that a
  request raises instead of being carried out.
\<close>

datatype s3_op = Download string | Upload string | DeleteObject string | ListObjects string

type_synonym s3_object = "body \<times> (string \<times> string) list"

datatype log_line = Local_state_not_removed path | Manual_recovery_hint

record world =
  s3 :: "(string \<times> s3_object) list"
  fs :: filesystem
  fault :: "s3_op \<Rightarrow> error option"
  requests :: "s3_op list"
  whoami :: string
  error_log :: "log_line list"

definition issue :: "s3_op \<Rightarrow> world \<Rightarrow> world" where
  "issue op w = w\<lparr>requests := requests w @ [op]\<rparr>"

text \<open>
  \<^verbatim>\<open>S3Transfer.download_file(bucket, key, filename)\<close>: a missing key is a
  \<^verbatim>\<open>ClientError\<close> with code 404.
\<close>

definition download_file :: "string \<Rightarrow> path \<Rightarrow> world \<Rightarrow> (error + unit) \<times> world" where
  "download_file key dest w =
     (let w1 = issue (Download key) w in
      case fault w (Download key) of
        Some e \<Rightarrow> (Inl e, w1)
      | None \<Rightarrow>
          (case map_of (s3 w) key of
             None \<Rightarrow> (Inl (ClientError ''404''), w1)
           | Some obj \<Rightarrow>
               (case write_file dest (fst obj) (fs w) of
                  Inl e \<Rightarrow> (Inl e, w1)
                | Inr fs' \<Rightarrow> (Inr (), w1\<lparr>fs := fs'\<rparr>))))"

text \<open>\<^verbatim>\<open>S3Transfer.upload_file(filename, bucket, key, extra_args={'Metadata': md})\<close>.\<close>

definition upload_file ::
  "path \<Rightarrow> string \<Rightarrow> (string \<times> string) list \<Rightarrow> world \<Rightarrow> (error + unit) \<times> world" where
  "upload_file src key md w =
     (case lookup (fs w) src of
        None \<Rightarrow> (Inl FileNotFoundError, w)
      | Some Dir \<Rightarrow> (Inl IsADirectoryError, w)
      | Some (File b) \<Rightarrow>
          (let w1 = issue (Upload key) w in
           case fault w (Upload key) of
             Some e \<Rightarrow> (Inl e, w1)
           | None \<Rightarrow> (Inr (), w1\<lparr>s3 := (key, (b, md)) # filter (\<lambda>e. fst e \<noteq> key) (s3 w)\<rparr>)))"

text \<open>\<^verbatim>\<open>client.delete_object(Bucket=..., Key=key)\<close>: deleting an absent key is no error.\<close>

definition delete_object :: "string \<Rightarrow> world \<Rightarrow> (error + unit) \<times> world" where
  "delete_object key w =
     (let w1 = issue (DeleteObject key) w in
      case fault w (DeleteObject key) of
        Some e \<Rightarrow> (Inl e, w1)
      | None \<Rightarrow> (Inr (), w1\<lparr>s3 := filter (\<lambda>e. fst e \<noteq> key) (s3 w)\<rparr>))"

text \<open>The paginated \<^verbatim>\<open>list_objects\<close> with \<^verbatim>\<open>Prefix=pre\<close>: all keys that start with it.\<close>

definition list_objects :: "string \<Rightarrow> world \<Rightarrow> (error + string list) \<times> world" where
  "list_objects pre w =
     (let w1 = issue (ListObjects pre) w in
      case fault w (ListObjects pre) of
        Some e \<Rightarrow> (Inl e, w1)
      | None \<Rightarrow> (Inr (filter (starts_with pre) (map fst (s3 w))), w1))"

subsection \<open>AWSFileProvider\<close>

text \<open>
  The attributes of the provider object. \<open>dirty\<close> is a Python set; the list holds its
  elements without repetition in one iteration order. The bucket name only occurs in
  the requests, which all go to the one bucket of the world.
\<close>

record aws_provider =
  prefix :: string
  local_dir :: path
  default_module :: "string option"
  default_project :: "string option"
  dirty :: "path list"
  bucket_contents_cache :: "string list option"
  last_version :: "int option"
  deleted_project :: bool

text \<open>\<^verbatim>\<open>_get(*args)\<close> of providers/utils.py, at its two-argument uses.\<close>

definition py_get :: "'a option \<Rightarrow> 'a option \<Rightarrow> error + 'a" where
  "py_get arg dflt =
     (case arg of
        Some a \<Rightarrow> Inr a
      | None \<Rightarrow> (case dflt of Some d \<Rightarrow> Inr d | None \<Rightarrow> Inl ValueError))"

definition get_project_and_module ::
  "aws_provider \<Rightarrow> string option \<Rightarrow> string option \<Rightarrow> error + (string \<times> string)" where
  "get_project_and_module self project module =
     (case py_get project (default_project self) of
        Inl e \<Rightarrow> Inl e
      | Inr p \<Rightarrow>
          (case py_get module (default_module self) of
             Inl e \<Rightarrow> Inl e
           | Inr m \<Rightarrow> Inr (p, m)))"

text \<open>\<^verbatim>\<open>_ensure_local_path\<close>: the staging directory of the project, created if missing.\<close>

definition ensure_local_path ::
  "aws_provider \<Rightarrow> string option \<Rightarrow> string option \<Rightarrow> world \<Rightarrow> (error + path) \<times> world" where
  "ensure_local_path self project module w =
     (case get_project_and_module self project module of
        Inl e \<Rightarrow> (Inl e, w)
      | Inr (p, m) \<Rightarrow>
          (let base_path = joinpath (joinpath (local_dir self) m) p in
           case mkdir_parents base_path (fs w) of
             (Inl e, fs') \<Rightarrow> (Inl e, w\<lparr>fs := fs'\<rparr>)
           | (Inr u, fs') \<Rightarrow> (Inr base_path, w\<lparr>fs := fs'\<rparr>)))"

text \<open>\<^verbatim>\<open>'/'.join(parts)\<close>.\<close>

fun join_slash :: "string list \<Rightarrow> string" where
  "join_slash [] = []"
| "join_slash [x] = x"
| "join_slash (x # y # ys) = x @ ''/'' @ join_slash (y # ys)"

definition get_s3_key ::
  "aws_provider \<Rightarrow> string \<Rightarrow> string option \<Rightarrow> string option \<Rightarrow> error + string" where
  "get_s3_key self fn project module =
     (case get_project_and_module self project module of
        Inl e \<Rightarrow> Inl e
      | Inr (p, m) \<Rightarrow> Inr (prefix self @ join_slash [m, p, fn]))"

definition get_local_path ::
  "aws_provider \<Rightarrow> string \<Rightarrow> string option \<Rightarrow> string option \<Rightarrow> error + path" where
  "get_local_path self fn project module =
     (case get_project_and_module self project module of
        Inl e \<Rightarrow> Inl e
      | Inr (p, m) \<Rightarrow> Inr (joinpath (joinpath (joinpath (local_dir self) m) p) fn))"

subsubsection \<open>Versioning methods\<close>

text \<open>
  \<^verbatim>\<open>get_metadata\<close>: download the metadata object of the project to \<^verbatim>\<open>meta.json\<close> in the
  staging directory and parse it. The dictionary is the pair of its two fields; the
  lookup of \<^verbatim>\<open>'version'\<close> that \<^verbatim>\<open>get_remote_version\<close> does on it fails together with
  the parsing.
\<close>

definition get_metadata ::
  "aws_provider \<Rightarrow> string \<Rightarrow> string \<Rightarrow> world \<Rightarrow> (error + (int \<times> string)) \<times> world" where
  "get_metadata self module project w =
     (let key = prefix self @ module @ ''/'' @ project in
      case ensure_local_path self (Some project) (Some module) w of
        (Inl e, w1) \<Rightarrow> (Inl e, w1)
      | (Inr base_path, w1) \<Rightarrow>
          (let destination = joinpath base_path ''meta.json'' in
           case download_file key destination w1 of
             (Inl e, w2) \<Rightarrow> (Inl e, w2)
           | (Inr u, w2) \<Rightarrow>
               (case lookup (fs w2) destination of
                  Some (File (Meta_json v a)) \<Rightarrow> (Inr (v, a), w2)
                | _ \<Rightarrow> (Inl JSONDecodeError, w2))))"

definition get_remote_version :: "aws_provider \<Rightarrow> world \<Rightarrow> (error + int option) \<times> world" where
  "get_remote_version self w =
     (case default_module self of
        None \<Rightarrow> (Inl (DreamerException No_default_in_get_remote_version), w)
      | Some m \<Rightarrow>
          (case default_project self of
             None \<Rightarrow> (Inl (DreamerException No_default_in_get_remote_version), w)
           | Some p \<Rightarrow>
               (case get_metadata self m p w of
                  (Inr md, w1) \<Rightarrow> (Inr (Some (fst md)), w1)
                | (Inl (ClientError c), w1) \<Rightarrow> (Inr None, w1)
                | (Inl e, w1) \<Rightarrow> (Inl e, w1))))"

definition open_project ::
  "aws_provider \<Rightarrow> string \<Rightarrow> string \<Rightarrow> world \<Rightarrow> (error + unit) \<times> aws_provider \<times> world" where
  "open_project self module project w =
     (let self1 = self\<lparr>default_module := Some module, default_project := Some project\<rparr> in
      case get_remote_version self1 w of
        (Inl e, w1) \<Rightarrow> (Inl e, self1, w1)
      | (Inr v, w1) \<Rightarrow> (Inr (), self1\<lparr>last_version := v\<rparr>, w1))"

text \<open>The version \<^verbatim>\<open>sync_project\<close> writes: 0 without a known version, else one more.\<close>

definition new_version :: "int option \<Rightarrow> int" where
  "new_version lv = (case lv of None \<Rightarrow> 0 | Some v \<Rightarrow> v + 1)"

definition sync_project :: "aws_provider \<Rightarrow> world \<Rightarrow> (error + int) \<times> world" where
  "sync_project self w =
     (case default_module self of
        None \<Rightarrow> (Inl (DreamerException No_default_in_sync_project), w)
      | Some m \<Rightarrow>
          (case default_project self of
             None \<Rightarrow> (Inl (DreamerException No_default_in_sync_project), w)
           | Some p \<Rightarrow>
               (let key = prefix self @ join_slash [m, p] in
                case ensure_local_path self (Some p) (Some m) w of
                  (Inl e, w1) \<Rightarrow> (Inl e, w1)
                | (Inr base_path, w1) \<Rightarrow>
                    (let fn = joinpath base_path ''meta.json'';
                         v = new_version (last_version self)
                     in
                     case write_file fn (Meta_json v (whoami w1)) (fs w1) of
                       Inl e \<Rightarrow> (Inl e, w1)
                     | Inr fs2 \<Rightarrow>
                         (case upload_file fn key [(''Content-Type'', ''application/json'')]
                                 (w1\<lparr>fs := fs2\<rparr>) of
                            (Inl e, w3) \<Rightarrow> (Inl e, w3)
                          | (Inr u, w3) \<Rightarrow> (Inr v, w3))))))"

definition close_project :: "aws_provider \<Rightarrow> world \<Rightarrow> (error + unit) \<times> aws_provider \<times> world" where
  "close_project self w =
     (case sync_project self w of
        (Inl e, w1) \<Rightarrow> (Inl e, self, w1)
      | (Inr v, w1) \<Rightarrow>
          (Inr (), self\<lparr>default_module := None, default_project := None, last_version := None\<rparr>, w1))"

subsubsection \<open>FileProvider method overrides\<close>

text \<open>\<^verbatim>\<open>get\<close>: every exception of the download is replaced by \<^verbatim>\<open>FileNotFoundError\<close>.\<close>

definition get ::
  "aws_provider \<Rightarrow> string \<Rightarrow> string option \<Rightarrow> string option \<Rightarrow> world \<Rightarrow> (error + path) \<times> world" where
  "get self fn project module w =
     (case ensure_local_path self project module w of
        (Inl e, w1) \<Rightarrow> (Inl e, w1)
      | (Inr base_path, w1) \<Rightarrow>
          (let file_path = joinpath base_path fn in
           if \<not> exists_path (fs w1) file_path then
             (case get_s3_key self fn project module of
                Inl e \<Rightarrow> (Inl e, w1)
              | Inr key \<Rightarrow>
                  (case download_file key file_path w1 of
                     (Inl e, w2) \<Rightarrow> (Inl FileNotFoundError, w2)
                   | (Inr u, w2) \<Rightarrow> (Inr file_path, w2)))
           else (Inr file_path, w1)))"

text \<open>\<^verbatim>\<open>self.dirty | {file_path}\<close>.\<close>

definition add_dirty :: "path \<Rightarrow> path list \<Rightarrow> path list" where
  "add_dirty p ds = (if p \<in> set ds then ds else ds @ [p])"

definition get_rw ::
  "aws_provider \<Rightarrow> string \<Rightarrow> string option \<Rightarrow> string option \<Rightarrow> world
     \<Rightarrow> (error + path) \<times> aws_provider \<times> world" where
  "get_rw self fn project module w =
     (case ensure_local_path self project module w of
        (Inl e, w1) \<Rightarrow> (Inl e, self, w1)
      | (Inr base_path, w1) \<Rightarrow>
          (let file_path = joinpath base_path fn;
               self1 = self\<lparr>dirty := add_dirty file_path (dirty self)\<rparr>
           in
           case get self1 fn project module w1 of
             (Inr q, w2) \<Rightarrow> (Inr file_path, self1, w2)
           | (Inl FileNotFoundError, w2) \<Rightarrow>
               (case touch file_path (fs w2) of
                  Inl e \<Rightarrow> (Inl e, self1, w2)
                | Inr fs3 \<Rightarrow> (Inr file_path, self1, w2\<lparr>fs := fs3\<rparr>))
           | (Inl e, w2) \<Rightarrow> (Inl e, self1, w2)))"

text \<open>
  The property \<^verbatim>\<open>bucket_contents\<close>: the listing is fetched once and kept in
  \<^verbatim>\<open>_bucket_contents\<close>, which is set to the empty list before the listing starts.
\<close>

definition bucket_contents ::
  "aws_provider \<Rightarrow> world \<Rightarrow> (error + string list) \<times> aws_provider \<times> world" where
  "bucket_contents self w =
     (case bucket_contents_cache self of
        Some c \<Rightarrow> (Inr c, self, w)
      | None \<Rightarrow>
          (case list_objects (prefix self) w of
             (Inl e, w1) \<Rightarrow> (Inl e, self\<lparr>bucket_contents_cache := Some []\<rparr>, w1)
           | (Inr keys, w1) \<Rightarrow>
               (let c = map (drop (length (prefix self))) keys in
                (Inr c, self\<lparr>bucket_contents_cache := Some c\<rparr>, w1))))"

text \<open>\<^verbatim>\<open>s.split(sep, maxsplit)\<close> for a one-character separator, and \<^verbatim>\<open>xs[i]\<close>.\<close>

fun split_max :: "char \<Rightarrow> nat \<Rightarrow> string \<Rightarrow> string list" where
  "split_max c 0 s = [s]"
| "split_max c (Suc n) s =
     (if c \<in> set s
      then takeWhile (\<lambda>x. x \<noteq> c) s # split_max c n (tl (dropWhile (\<lambda>x. x \<noteq> c) s))
      else [s])"

definition py_index :: "'a list \<Rightarrow> nat \<Rightarrow> error + 'a" where
  "py_index xs i = (if i < length xs then Inr (xs ! i) else Inl IndexError)"

fun get_files_loop :: "string \<Rightarrow> string list \<Rightarrow> error + string list" where
  "get_files_loop pre [] = Inr []"
| "get_files_loop pre (key # keys) =
     (if starts_with pre key then
        (case py_index (split_max CHR ''/'' 2 key) 2 of
           Inl e \<Rightarrow> Inl e
         | Inr f \<Rightarrow>
             (case get_files_loop pre keys of
                Inl e \<Rightarrow> Inl e
              | Inr out \<Rightarrow> Inr (f # out)))
      else get_files_loop pre keys)"

definition get_files ::
  "aws_provider \<Rightarrow> string option \<Rightarrow> string option \<Rightarrow> world
     \<Rightarrow> (error + string list) \<times> aws_provider \<times> world" where
  "get_files self project module w =
     (case get_project_and_module self project module of
        Inl e \<Rightarrow> (Inl e, self, w)
      | Inr (p, m) \<Rightarrow>
          (case bucket_contents self w of
             (Inl e, self1, w1) \<Rightarrow> (Inl e, self1, w1)
           | (Inr keys, self1, w1) \<Rightarrow>
               (case get_files_loop (m @ ''/'' @ p @ ''/'') keys of
                  Inl e \<Rightarrow> (Inl e, self1, w1)
                | Inr out \<Rightarrow> (Inr out, self1, w1))))"

definition delete ::
  "aws_provider \<Rightarrow> string \<Rightarrow> string option \<Rightarrow> string option \<Rightarrow> world \<Rightarrow> (error + unit) \<times> world" where
  "delete self fn project module w =
     (case get_project_and_module self project module of
        Inl e \<Rightarrow> (Inl e, w)
      | Inr (p, m) \<Rightarrow>
          (case get_s3_key self fn (Some p) (Some m) of
             Inl e \<Rightarrow> (Inl e, w)
           | Inr key \<Rightarrow> delete_object key w))"

fun delete_files ::
  "aws_provider \<Rightarrow> string list \<Rightarrow> string \<Rightarrow> string \<Rightarrow> world \<Rightarrow> (error + unit) \<times> world" where
  "delete_files self [] p m w = (Inr (), w)"
| "delete_files self (fn # fns) p m w =
     (case delete self fn (Some p) (Some m) w of
        (Inl e, w1) \<Rightarrow> (Inl e, w1)
      | (Inr u, w1) \<Rightarrow> delete_files self fns p m w1)"

definition delete_project ::
  "aws_provider \<Rightarrow> string \<Rightarrow> string option \<Rightarrow> bool \<Rightarrow> world
     \<Rightarrow> (error + unit) \<times> aws_provider \<times> world" where
  "delete_project self project module recursive w =
     (case get_project_and_module self (Some project) module of
        Inl e \<Rightarrow> (Inl e, self, w)
      | Inr (p, m) \<Rightarrow>
          (let self1 = (if Some p = default_project self \<and> Some m = default_module self
                        then self\<lparr>deleted_project := True\<rparr> else self);
               key = join_slash [prefix self @ m, p]
           in
           if recursive then
             (case get_files self1 (Some p) (Some m) w of
                (Inl e, self2, w1) \<Rightarrow> (Inl e, self2, w1)
              | (Inr fns, self2, w1) \<Rightarrow>
                  (case delete_files self2 fns p m w1 of
                     (Inl e, w2) \<Rightarrow> (Inl e, self2, w2)
                   | (Inr u, w2) \<Rightarrow>
                       (case delete_object key w2 of
                          (Inl e, w3) \<Rightarrow> (Inl e, self2, w3)
                        | (Inr u', w3) \<Rightarrow> (Inr (), self2, w3))))
           else
             (case delete_object key w of
                (Inl e, w3) \<Rightarrow> (Inl e, self1, w3)
              | (Inr u', w3) \<Rightarrow> (Inr (), self1, w3))))"

definition module_exists :: "aws_provider \<Rightarrow> string \<Rightarrow> bool" where
  "module_exists self module = True"

definition project_exists ::
  "aws_provider \<Rightarrow> string \<Rightarrow> string option \<Rightarrow> world
     \<Rightarrow> (error + bool) \<times> aws_provider \<times> world" where
  "project_exists self project module w =
     (case get_project_and_module self (Some project) module of
        Inl e \<Rightarrow> (Inl e, self, w)
      | Inr (p, m) \<Rightarrow>
          (case bucket_contents self w of
             (Inl e, self1, w1) \<Rightarrow> (Inl e, self1, w1)
           | (Inr keys, self1, w1) \<Rightarrow> (Inr (m @ ''/'' @ p \<in> set keys), self1, w1)))"

text \<open>
  The loop of \<^verbatim>\<open>sync\<close> over the dirty paths. \<^verbatim>\<open>path.relative_to(self.local_dir)\<close>
  raises \<^verbatim>\<open>ValueError\<close> for a path that is not below the staging directory.
\<close>

definition relative_to :: "path \<Rightarrow> path \<Rightarrow> error + path" where
  "relative_to p base = (if starts_with base p then Inr (drop (length base) p) else Inl ValueError)"

definition path_str :: "path \<Rightarrow> string" where
  "path_str p = (if p = [] then ''.'' else join_slash p)"

fun upload_dirty :: "aws_provider \<Rightarrow> path list \<Rightarrow> world \<Rightarrow> (error + unit) \<times> world" where
  "upload_dirty self [] w = (Inr (), w)"
| "upload_dirty self (p # ps) w =
     (case relative_to p (local_dir self) of
        Inl e \<Rightarrow> (Inl e, w)
      | Inr rel \<Rightarrow>
          (case upload_file p (prefix self @ path_str rel) [(''author'', whoami w)] w of
             (Inl e, w1) \<Rightarrow> (Inl e, w1)
           | (Inr u, w1) \<Rightarrow> upload_dirty self ps w1))"

text \<open>Python truthiness of an \<^verbatim>\<open>Optional[str]\<close>: neither \<^verbatim>\<open>None\<close> nor the empty string.\<close>

definition truthy :: "string option \<Rightarrow> bool" where
  "truthy x = (case x of None \<Rightarrow> False | Some s \<Rightarrow> s \<noteq> [])"

definition sync :: "aws_provider \<Rightarrow> world \<Rightarrow> (error + bool) \<times> aws_provider \<times> world" where
  "sync self w =
     (if deleted_project self \<or> dirty self = [] then (Inr True, self, w)
      else
        (case get_remote_version self w of
           (Inl e, w1) \<Rightarrow> (Inl e, self, w1)
         | (Inr current_version, w1) \<Rightarrow>
             (if current_version \<noteq> last_version self
              then (Inl (DreamerException Remote_state_modified), self, w1)
              else
                (case upload_dirty self (dirty self) w1 of
                   (Inl e, w2) \<Rightarrow> (Inl e, self, w2)
                 | (Inr u, w2) \<Rightarrow>
                     (if truthy (default_module self) \<and> truthy (default_project self) then
                        (case sync_project self w2 of
                           (Inl e, w3) \<Rightarrow> (Inl e, self, w3)
                         | (Inr v, w3) \<Rightarrow> (Inr True, self\<lparr>last_version := Some v\<rparr>, w3))
                      else (Inr True, self, w2))))))"

text \<open>
  \<^verbatim>\<open>__exit__(exc_type, exc_val, exc_tb)\<close>; \<open>exc\<close> is the exception that is leaving the
  \<^verbatim>\<open>with\<close> block, if any. The result \<open>Inr False\<close> is the return value \<^verbatim>\<open>False\<close>, under
  which Python lets that exception go on; \<open>Inl e\<close> is an exception raised by
  \<^verbatim>\<open>__exit__\<close> itself, which the caller then sees in its place.
\<close>

definition aws_exit ::
  "aws_provider \<Rightarrow> error option \<Rightarrow> world \<Rightarrow> (error + bool) \<times> aws_provider \<times> world" where
  "aws_exit self exc w =
     (case sync self w of
        (r, self1, w1) \<Rightarrow>
          (let local_exc = (case r of Inl e \<Rightarrow> Some e | Inr b \<Rightarrow> None) in
           case (if exc = None then rmtree (local_dir self1) (fs w1) else Inr (fs w1)) of
             Inl e \<Rightarrow> (Inl e, self1, w1)
           | Inr fs2 \<Rightarrow>
               (if exc \<noteq> None \<or> local_exc \<noteq> None then
                  (let w3 = w1\<lparr>fs := fs2,
                               error_log := error_log w1 @
                                 [Local_state_not_removed (local_dir self1), Manual_recovery_hint]\<rparr>
                   in case local_exc of
                        Some e \<Rightarrow> (Inl e, self1, w3)
                      | None \<Rightarrow> (Inr False, self1, w3))
                else (Inr False, self1, w1\<lparr>fs := fs2\<rparr>))))"

text \<open>The exception the caller of a \<^verbatim>\<open>with\<close> statement sees, given what \<^verbatim>\<open>__exit__\<close> did.\<close>

definition observed_exception :: "error option \<Rightarrow> error + bool \<Rightarrow> error option" where
  "observed_exception exc r =
     (case r of Inl e \<Rightarrow> Some e | Inr suppress \<Rightarrow> (if suppress then None else exc))"

subsection \<open>LocalFileProvider\<close>

record local_provider =
  base_dir :: path
  local_default_module :: "string option"
  local_default_project :: "string option"

definition local_get_project_and_module ::
  "local_provider \<Rightarrow> string option \<Rightarrow> string option \<Rightarrow> error + (string \<times> string)" where
  "local_get_project_and_module self project module =
     (case py_get project (local_default_project self) of
        Inl e \<Rightarrow> Inl e
      | Inr p \<Rightarrow>
          (case py_get module (local_default_module self) of
             Inl e \<Rightarrow> Inl e
           | Inr m \<Rightarrow> Inr (p, m)))"

definition get_path :: "local_provider \<Rightarrow> string \<Rightarrow> string \<Rightarrow> string \<Rightarrow> path" where
  "get_path self fn project module =
     joinpath (joinpath (joinpath (base_dir self) module) project) fn"

definition local_get ::
  "local_provider \<Rightarrow> string \<Rightarrow> string option \<Rightarrow> string option \<Rightarrow> filesystem \<Rightarrow> error + path" where
  "local_get self fn project module fsys =
     (case local_get_project_and_module self project module of
        Inl e \<Rightarrow> Inl e
      | Inr (p, m) \<Rightarrow>
          (let path = get_path self fn p m in
           if \<not> exists_path fsys path then Inl FileNotFoundError else Inr path))"

text \<open>\<^verbatim>\<open>if not d.exists(): d.mkdir()\<close>.\<close>

definition mkdir_if_missing :: "path \<Rightarrow> filesystem \<Rightarrow> error + filesystem" where
  "mkdir_if_missing d fsys = (if \<not> exists_path fsys d then mkdir d fsys else Inr fsys)"

definition local_get_rw ::
  "local_provider \<Rightarrow> string \<Rightarrow> string option \<Rightarrow> string option \<Rightarrow> filesystem
     \<Rightarrow> (error + path) \<times> filesystem" where
  "local_get_rw self fn project module fsys =
     (case local_get_project_and_module self project module of
        Inl e \<Rightarrow> (Inl e, fsys)
      | Inr (p, m) \<Rightarrow>
          (case mkdir_if_missing (base_dir self) fsys of
             Inl e \<Rightarrow> (Inl e, fsys)
           | Inr fs1 \<Rightarrow>
               (case mkdir_if_missing (joinpath (base_dir self) m) fs1 of
                  Inl e \<Rightarrow> (Inl e, fs1)
                | Inr fs2 \<Rightarrow>
                    (case mkdir_if_missing (joinpath (joinpath (base_dir self) m) p) fs2 of
                       Inl e \<Rightarrow> (Inl e, fs2)
                     | Inr fs3 \<Rightarrow>
                         (let path = get_path self fn p m in
                          if \<not> exists_path fs3 path then
                            (case touch path fs3 of
                               Inl e \<Rightarrow> (Inl e, fs3)
                             | Inr fs4 \<Rightarrow> (Inr path, fs4))
                          else (Inr path, fs3))))))"

definition local_delete_project ::
  "local_provider \<Rightarrow> string \<Rightarrow> string option \<Rightarrow> bool \<Rightarrow> filesystem
     \<Rightarrow> (error + unit) \<times> filesystem" where
  "local_delete_project self project module recursive fsys =
     (case local_get_project_and_module self (Some project) module of
        Inl e \<Rightarrow> (Inl e, fsys)
      | Inr (p, m) \<Rightarrow>
          (case (if recursive then rmtree (joinpath (joinpath (base_dir self) m) p) fsys
                 else rmdir (joinpath (joinpath (base_dir self) m) p) fsys) of
             Inl e \<Rightarrow> (Inl e, fsys)
           | Inr fs' \<Rightarrow> (Inr (), fs')))"

subsection \<open>Example states\<close>

text \<open>
  The attributes \<^verbatim>\<open>AWSFileProvider.__init__\<close> sets, for a key prefix and the staging
  directory \<^verbatim>\<open>tempfile.mkdtemp\<close> made; and a world with a given bucket, that staging
  directory on disk and a transport without failures. The examples below run on them.
\<close>

definition new_provider :: "string \<Rightarrow> path \<Rightarrow> aws_provider" where
  "new_provider pre tmp =
     \<lparr>prefix = pre, local_dir = tmp, default_module = None, default_project = None,
      dirty = [], bucket_contents_cache = None, last_version = None, deleted_project = False\<rparr>"

definition tmp_a :: path where
  "tmp_a = [''tmp'', ''dreamer-a'']"

definition example_world :: "(string \<times> s3_object) list \<Rightarrow> world" where
  "example_world objs =
     \<lparr>s3 = objs, fs = [([''tmp''], Dir), (tmp_a, Dir)],
      fault = (\<lambda>op. None), requests = [], whoami = ''alice@dev'', error_log = []\<rparr>"

text \<open>A bucket holding project \<^verbatim>\<open>prod\<close> of module \<^verbatim>\<open>db\<close> at version 3 with two files.\<close>

definition prod_bucket :: "(string \<times> s3_object) list" where
  "prod_bucket =
     [(''db/prod'', (Meta_json 3 ''bob@ops'', [(''Content-Type'', ''application/json'')])),
      (''db/prod/a'', (Raw ''aaa'', [(''author'', ''bob@ops'')])),
      (''db/prod/b'', (Raw ''bbb'', [(''author'', ''bob@ops'')]))]"

text \<open>
  Process A has opened \<^verbatim>\<open>db/prod\<close> on that bucket: the provider and the world that
  \<^verbatim>\<open>open_project\<close> leaves (lemma \<open>a_opened\<close> below).
\<close>

definition a_opened_provider :: aws_provider where
  "a_opened_provider =
     \<lparr>prefix = [], local_dir = tmp_a, default_module = Some ''db'',
      default_project = Some ''prod'', dirty = [], bucket_contents_cache = None,
      last_version = Some 3, deleted_project = False\<rparr>"

definition a_opened_world :: world where
  "a_opened_world =
     \<lparr>s3 = prod_bucket,
      fs = [(tmp_a @ [''db'', ''prod'', ''meta.json''], File (Meta_json 3 ''bob@ops'')),
            (tmp_a @ [''db'', ''prod''], Dir), (tmp_a @ [''db''], Dir),
            ([''tmp''], Dir), (tmp_a, Dir)],
      fault = (\<lambda>op. None), requests = [Download ''db/prod''], whoami = ''alice@dev'',
      error_log = []\<rparr>"

text \<open>
  Meanwhile another process has synced the same project, which is now at version 4;
  then A asks for file \<^verbatim>\<open>b\<close> with \<^verbatim>\<open>get_rw\<close> (lemma \<open>a_wrote\<close> below).
\<close>

definition moved_bucket :: "(string \<times> s3_object) list" where
  "moved_bucket =
     [(''db/prod'', (Meta_json 4 ''bob@ops'', [(''Content-Type'', ''application/json'')])),
      (''db/prod/a'', (Raw ''AAA'', [(''author'', ''bob@ops'')])),
      (''db/prod/b'', (Raw ''bbb'', [(''author'', ''bob@ops'')]))]"

definition a_wrote_provider :: aws_provider where
  "a_wrote_provider = a_opened_provider\<lparr>dirty := [tmp_a @ [''db'', ''prod'', ''b'']]\<rparr>"

definition a_wrote_world :: world where
  "a_wrote_world =
     \<lparr>s3 = moved_bucket,
      fs = [(tmp_a @ [''db'', ''prod'', ''b''], File (Raw ''bbb'')),
            (tmp_a @ [''db'', ''prod'', ''meta.json''], File (Meta_json 3 ''bob@ops'')),
            (tmp_a @ [''db'', ''prod''], Dir), (tmp_a @ [''db''], Dir),
            ([''tmp''], Dir), (tmp_a, Dir)],
      fault = (\<lambda>op. None), requests = [Download ''db/prod'', Download ''db/prod/b''],
      whoami = ''alice@dev'', error_log = []\<rparr>"

text \<open>
  A project that has never been synced: the bucket is empty, the project is opened
  (lemma \<open>fresh_opened\<close>) and \<^verbatim>\<open>get_rw\<close> is asked for \<^verbatim>\<open>state.json\<close> (lemma
  \<open>fresh_wrote\<close>). Then \<^verbatim>\<open>sync()\<close> is called twice in a row.
\<close>

definition fresh_opened_provider :: aws_provider where
  "fresh_opened_provider =
     \<lparr>prefix = [], local_dir = tmp_a, default_module = Some ''db'',
      default_project = Some ''prod'', dirty = [], bucket_contents_cache = None,
      last_version = None, deleted_project = False\<rparr>"

definition fresh_opened_world :: world where
  "fresh_opened_world =
     \<lparr>s3 = [],
      fs = [(tmp_a @ [''db'', ''prod''], Dir), (tmp_a @ [''db''], Dir),
            ([''tmp''], Dir), (tmp_a, Dir)],
      fault = (\<lambda>op. None), requests = [Download ''db/prod''], whoami = ''alice@dev'',
      error_log = []\<rparr>"

definition fresh_wrote_provider :: aws_provider where
  "fresh_wrote_provider =
     fresh_opened_provider\<lparr>dirty := [tmp_a @ [''db'', ''prod'', ''state.json'']]\<rparr>"

definition fresh_wrote_world :: world where
  "fresh_wrote_world =
     \<lparr>s3 = [],
      fs = [(tmp_a @ [''db'', ''prod'', ''state.json''], File (Raw [])),
            (tmp_a @ [''db'', ''prod''], Dir), (tmp_a @ [''db''], Dir),
            ([''tmp''], Dir), (tmp_a, Dir)],
      fault = (\<lambda>op. None),
      requests = [Download ''db/prod'', Download ''db/prod/state.json''],
      whoami = ''alice@dev'', error_log = []\<rparr>"

definition first_sync :: "(error + bool) \<times> aws_provider \<times> world" where
  "first_sync = sync fresh_wrote_provider fresh_wrote_world"

definition second_sync :: "(error + bool) \<times> aws_provider \<times> world" where
  "second_sync = sync (fst (snd first_sync)) (snd (snd first_sync))"

text \<open>Process A closes the project: once with nothing staged, once after its \<^verbatim>\<open>get_rw\<close>.\<close>

definition a_closed :: "(error + unit) \<times> aws_provider \<times> world" where
  "a_closed = close_project a_opened_provider a_opened_world"

definition a_closed_dirty :: "(error + unit) \<times> aws_provider \<times> world" where
  "a_closed_dirty = close_project a_wrote_provider a_wrote_world"

text \<open>
  The \<^verbatim>\<open>with\<close> block of process A is left: with an exception of a failed step in
  flight, and without one. The block on the fresh project is left without one, too.
\<close>

definition a_exit_in_flight :: "(error + bool) \<times> aws_provider \<times> world" where
  "a_exit_in_flight =
     aws_exit a_wrote_provider (Some (OtherTransportError ''step failed'')) a_wrote_world"

definition a_exit_clean_scope :: "(error + bool) \<times> aws_provider \<times> world" where
  "a_exit_clean_scope = aws_exit a_wrote_provider None a_wrote_world"

definition fresh_exit :: "(error + bool) \<times> aws_provider \<times> world" where
  "fresh_exit = aws_exit fresh_wrote_provider None fresh_wrote_world"

text \<open>
  A new provider deletes project \<^verbatim>\<open>prod\<close> with its files, then asks whether it exists.
\<close>

definition prod_deleted :: "(error + unit) \<times> aws_provider \<times> world" where
  "prod_deleted =
     delete_project (new_provider [] tmp_a) ''prod'' (Some ''db'') True (example_world prod_bucket)"

definition prod_exists_after :: "(error + bool) \<times> aws_provider \<times> world" where
  "prod_exists_after =
     project_exists (fst (snd prod_deleted)) ''prod'' (Some ''db'') (snd (snd prod_deleted))"

text \<open>
  The transport denies the download of the metadata record of \<^verbatim>\<open>db/prod\<close> (a
  \<^verbatim>\<open>ClientError\<close> with code 403) while the record is there; and the endpoint cannot be
  reached (not a \<^verbatim>\<open>ClientError\<close>) when process A fetches file \<^verbatim>\<open>a\<close>, which is there.
\<close>

definition denied_world :: world where
  "denied_world =
     (example_world prod_bucket)
       \<lparr>fault := (\<lambda>op. if op = Download ''db/prod'' then Some (ClientError ''403'') else None)\<rparr>"

definition denied_opened :: "(error + unit) \<times> aws_provider \<times> world" where
  "denied_opened = open_project (new_provider [] tmp_a) ''db'' ''prod'' denied_world"



text \<open>
  A local provider whose base directory is three levels deep, with the project
  \<^verbatim>\<open>db/prod\<close> as its default; and a disk on which the base directory exists.
\<close>

definition state_store :: local_provider where
  "state_store =
     \<lparr>base_dir = [''srv'', ''dreamer'', ''state''], local_default_module = Some ''db'',
      local_default_project = Some ''prod''\<rparr>"

definition state_store_disk :: filesystem where
  "state_store_disk =
     [([''srv''], Dir), ([''srv'', ''dreamer''], Dir), ([''srv'', ''dreamer'', ''state''], Dir)]"

text \<open>The same disk with the directory of project \<^verbatim>\<open>db/prod\<close> on it, and no file in it.\<close>

definition empty_project_disk :: filesystem where
  "empty_project_disk =
     ([''srv'', ''dreamer'', ''state'', ''db'', ''prod''], Dir)
       # ([''srv'', ''dreamer'', ''state'', ''db''], Dir) # state_store_disk"

text \<open>The disk on which the place of the directory of module \<^verbatim>\<open>db\<close> is taken by a regular file.\<close>

definition module_file_disk :: filesystem where
  "module_file_disk =
     ([''srv'', ''dreamer'', ''state'', ''db''], File (Raw ''x'')) # state_store_disk"

section \<open>Properties\<close>

subsection \<open>Unfolding the model\<close>

lemmas fs_defs = entry_def stat_def lookup_def exists_path_def is_dir_def put_node_def
  children_def glob_star_def mkdir_def touch_def write_file_def rmtree_def rmdir_def
  starts_with_def joinpath_def parts_def mkdir_parents.simps

lemmas s3_defs = issue_def download_file_def upload_file_def delete_object_def list_objects_def

lemmas aws_defs = py_get_def get_project_and_module_def ensure_local_path_def get_s3_key_def
  get_local_path_def get_metadata_def get_remote_version_def open_project_def new_version_def
  sync_project_def close_project_def get_def add_dirty_def get_rw_def bucket_contents_def
  py_index_def get_files_def delete_def delete_project_def project_exists_def relative_to_def
  path_str_def truthy_def sync_def aws_exit_def observed_exception_def

lemmas example_defs = new_provider_def tmp_a_def example_world_def prod_bucket_def
  a_opened_provider_def a_opened_world_def moved_bucket_def a_wrote_provider_def
  a_wrote_world_def

lemmas fresh_defs = fresh_opened_provider_def fresh_opened_world_def fresh_wrote_provider_def
  fresh_wrote_world_def

subsection \<open>Paths\<close>

lemma split_slash_plain: "CHR ''/'' \<notin> set s \<Longrightarrow> split_slash acc s = [rev acc @ s]"
  by (induction s arbitrary: acc) auto

lemma joinpath_single [simp]: "single_component s \<Longrightarrow> joinpath p s = p @ [s]"
  by (cases s) (auto simp: joinpath_def parts_def single_component_def split_slash_plain)

lemma joinpath_meta [simp]: "joinpath p ''meta.json'' = p @ [''meta.json'']"
  by (simp add: joinpath_def parts_def)

subsection \<open>The filesystem\<close>

lemma entry_root [simp]: "entry fsys [] = Some Dir"
  by (simp add: entry_def)

lemma map_of_filter_neq:
  "map_of (filter (\<lambda>e. fst e \<noteq> p) xs) q = (if q = p then None else map_of xs q)"
  by (induction xs) auto

lemma map_of_filter_key:
  "map_of (filter (\<lambda>e. P (fst e)) xs) q = (if P q then map_of xs q else None)"
  by (induction xs) auto

lemma entry_put_node:
  "entry (put_node p n fsys) q = (if q = [] then Some Dir else if q = p then Some n else entry fsys q)"
  by (simp add: entry_def put_node_def map_of_filter_neq)

lemma walk_append:
  "walk fsys cur (p @ r) = (case walk fsys cur p of Inl e \<Rightarrow> Inl e | Inr t \<Rightarrow> walk fsys t r)"
  by (induction p arbitrary: cur) (auto split: option.splits node.splits)

text \<open>If every directory of one disk is a directory of the other, what resolves on the one
  resolves on the other, to the same place.\<close>

lemma walk_mono:
  assumes "\<And>c. entry fsys c = Some Dir \<Longrightarrow> entry fs' c = Some Dir"
    and "walk fsys cur p = Inr t"
  shows "walk fs' cur p = Inr t"
  using assms(2)
proof (induction p arbitrary: cur)
  case Nil
  then show ?case by simp
next
  case (Cons c cs)
  then show ?case
    by (auto split: option.splits node.splits dest: assms(1))
qed

lemma walk_error: "walk fsys cur p = Inl e \<Longrightarrow> e = FileNotFoundError \<or> e = NotADirectoryError"
  by (induction p arbitrary: cur) (auto split: option.splits node.splits)

lemma stat_error: "stat fsys p = Inl e \<Longrightarrow> e = FileNotFoundError \<or> e = NotADirectoryError"
  by (auto simp: stat_def split: sum.splits option.splits dest: walk_error)



lemma lookup_written:
  assumes "write_file p b fsys = Inr fs'"
  shows "lookup fs' p = Some (File b)"
proof -
  from assms obtain q where w: "walk fsys [] p = Inr q" and nd: "entry fsys q \<noteq> Some Dir"
    and fs': "fs' = put_node q (File b) fsys"
    by (auto simp: write_file_def split: sum.splits option.splits node.splits)
  have "walk fs' [] p = Inr q"
    by (rule walk_mono [OF _ w]) (use nd in \<open>auto simp: fs' entry_put_node\<close>)
  moreover have "q \<noteq> []" using nd by auto
  ultimately show ?thesis
    by (simp add: lookup_def stat_def fs' entry_put_node)
qed


subsection \<open>Making directories\<close>

lemma mkdir_result:
  assumes "mkdir p fsys = Inr fs1"
  shows "lookup fs1 p = Some Dir" and "entry fsys c = Some n \<Longrightarrow> entry fs1 c = Some n"
proof -
  from assms obtain q where w: "walk fsys [] p = Inr q" and nd: "entry fsys q = None"
    and fs1: "fs1 = put_node q Dir fsys"
    by (auto simp: mkdir_def split: sum.splits option.splits)
  have "walk fs1 [] p = Inr q"
    by (rule walk_mono [OF _ w]) (use nd in \<open>auto simp: fs1 entry_put_node\<close>)
  moreover have "q \<noteq> []" using nd by auto
  ultimately show "lookup fs1 p = Some Dir"
    by (simp add: lookup_def stat_def fs1 entry_put_node)
  show "entry fsys c = Some n \<Longrightarrow> entry fs1 c = Some n"
    using nd by (auto simp: fs1 entry_put_node)
qed



lemma mkdir_parents_keeps:
  "mkdir_parents p fsys = (r, fs') \<Longrightarrow> entry fsys c = Some n \<Longrightarrow> entry fs' c = Some n"
proof (induction p fsys arbitrary: r fs' rule: mkdir_parents.induct)
  case (1 p fsys)
  show ?case
  proof (cases "mkdir p fsys")
    case (Inr fs1)
    with "1.prems" show ?thesis
      by (auto simp: mkdir_parents.simps [of p fsys] dest: mkdir_result(2))
  next
    case (Inl e)
    show ?thesis
    proof (cases "e = FileNotFoundError \<and> p \<noteq> []")
      case False
      with Inl "1.prems" show ?thesis
        by (auto simp: mkdir_parents.simps [of p fsys] split: if_splits)
    next
      case True
      obtain r1 fs1 where rec: "mkdir_parents (butlast p) fsys = (r1, fs1)"
        by (cases "mkdir_parents (butlast p) fsys")
      from True Inl have k: "entry fs1 c = Some n"
        using "1.IH" [OF Inl _ _ rec "1.prems"(2)] by simp
      from True Inl rec "1.prems"(1) k show ?thesis
        by (auto simp: mkdir_parents.simps [of p fsys]
            split: sum.splits if_splits dest: mkdir_result(2))
    qed
  qed
qed





subsection \<open>Removing directories\<close>

lemma starts_with_self [simp]: "starts_with p p"
  by (simp add: starts_with_def)

lemma starts_with_append [simp]: "starts_with p (p @ r)"
  by (simp add: starts_with_def)

text \<open>What is no longer listed cannot be reached any more, by whatever path.\<close>

lemma removed_unreachable:
  assumes "walk fsys [] p = Inr t"
    and "\<And>c. entry fs' c = Some Dir \<Longrightarrow> entry fsys c = Some Dir"
    and "entry fs' t = None"
  shows "lookup fs' (p @ r) = None"
proof (cases "walk fs' [] p")
  case (Inl e)
  then show ?thesis
    by (simp add: lookup_def stat_def walk_append)
next
  case (Inr t')
  from walk_mono [OF assms(2) Inr] assms(1) have "t' = t" by simp
  with Inr assms(3) show ?thesis
    by (cases r) (simp_all add: lookup_def stat_def walk_append)
qed

text \<open>What \<^verbatim>\<open>rmtree\<close> removed cannot be reached any more, by whatever path.\<close>

lemma rmtree_removes:
  assumes "rmtree p fsys = Inr fs'" and "starts_with p q" and "q \<noteq> []"
  shows "lookup fs' q = None"
proof -
  from assms(1) obtain t where w: "walk fsys [] p = Inr t" and t: "t \<noteq> []"
    and fs': "fs' = filter (\<lambda>e. \<not> starts_with t (fst e)) fsys"
    by (auto simp: rmtree_def stat_def split: sum.splits option.splits node.splits if_splits)
  have sub: "entry fs' c = Some Dir \<Longrightarrow> entry fsys c = Some Dir" for c
    by (auto simp: entry_def fs' map_of_filter_key [where P = "\<lambda>k. \<not> starts_with t k"]
        split: if_splits)
  have gone: "entry fs' (t @ r) = None" for r
    using t by (simp add: entry_def fs' map_of_filter_key [where P = "\<lambda>k. \<not> starts_with t k"])
  from assms(2) obtain r where q: "q = p @ r"
    by (metis append_take_drop_id starts_with_def)
  show ?thesis
  proof (cases "walk fs' [] p")
    case (Inl e)
    then show ?thesis
      by (simp add: lookup_def stat_def q walk_append)
  next
    case (Inr t')
    from walk_mono [OF sub Inr] w have t': "t' = t" by simp
    show ?thesis
    proof (cases r)
      case Nil
      with Inr t' gone [of "[]"] show ?thesis
        by (simp add: lookup_def stat_def q)
    next
      case (Cons c cs)
      with Inr t' gone [of "[]"] show ?thesis
        by (simp add: lookup_def stat_def q walk_append)
    qed
  qed
qed

lemma rmdir_removes:
  assumes "rmdir p fsys = Inr fs'"
  shows "lookup fs' p = None"
proof -
  from assms obtain t where w: "walk fsys [] p = Inr t" and t: "t \<noteq> []"
    and fs': "fs' = filter (\<lambda>e. fst e \<noteq> t) fsys"
    by (auto simp: rmdir_def stat_def split: sum.splits option.splits node.splits if_splits)
  have "entry fs' c = Some Dir \<Longrightarrow> entry fsys c = Some Dir" for c
    by (auto simp: entry_def fs' map_of_filter_neq split: if_splits)
  moreover have "entry fs' t = None"
    using t by (simp add: entry_def fs' map_of_filter_neq)
  ultimately show ?thesis
    using removed_unreachable [OF w, of fs' "[]"] by simp
qed

subsection \<open>What the version fetch leaves untouched\<close>

lemma ensure_local_path_frame:
  "ensure_local_path self project module w = (r, w1) \<Longrightarrow>
     s3 w1 = s3 w \<and> requests w1 = requests w \<and> fault w1 = fault w \<and> whoami w1 = whoami w
     \<and> error_log w1 = error_log w"
  by (auto simp: ensure_local_path_def Let_def split: sum.splits prod.splits)



lemma download_file_frame:
  "download_file key dest w = (r, w1) \<Longrightarrow>
     s3 w1 = s3 w \<and> requests w1 = requests w @ [Download key] \<and> fault w1 = fault w
     \<and> whoami w1 = whoami w \<and> error_log w1 = error_log w"
  by (auto simp: download_file_def issue_def Let_def split: option.splits sum.splits)

lemma get_metadata_frame:
  "get_metadata self m p w = (r, w1) \<Longrightarrow>
     s3 w1 = s3 w \<and> fault w1 = fault w \<and> whoami w1 = whoami w \<and> error_log w1 = error_log w"
  by (auto simp: get_metadata_def Let_def
      split: prod.splits sum.splits option.splits node.splits body.splits
      dest!: ensure_local_path_frame download_file_frame)


lemma get_remote_version_frame:
  "get_remote_version self w = (r, w1) \<Longrightarrow>
     s3 w1 = s3 w \<and> fault w1 = fault w \<and> whoami w1 = whoami w \<and> error_log w1 = error_log w"
  by (auto simp: get_remote_version_def
      split: option.splits prod.splits sum.splits error.splits dest!: get_metadata_frame)



subsection \<open>The example states are reached\<close>

lemma a_opened:
  "open_project (new_provider [] tmp_a) ''db'' ''prod'' (example_world prod_bucket)
     = (Inr (), a_opened_provider, a_opened_world)"
  by (simp add: aws_defs fs_defs s3_defs example_defs Let_def)

lemma a_wrote:
  "get_rw a_opened_provider ''b'' None None (a_opened_world\<lparr>s3 := moved_bucket\<rparr>)
     = (Inr (tmp_a @ [''db'', ''prod'', ''b'']), a_wrote_provider, a_wrote_world)"
  by (simp add: aws_defs fs_defs s3_defs example_defs Let_def)

lemma fresh_opened:
  "open_project (new_provider [] tmp_a) ''db'' ''prod'' (example_world [])
     = (Inr (), fresh_opened_provider, fresh_opened_world)"
  by (simp add: aws_defs fs_defs s3_defs example_defs fresh_defs Let_def)

lemma fresh_wrote:
  "get_rw fresh_opened_provider ''state.json'' None None fresh_opened_world
     = (Inr (tmp_a @ [''db'', ''prod'', ''state.json'']), fresh_wrote_provider, fresh_wrote_world)"
  by (simp add: aws_defs fs_defs s3_defs example_defs fresh_defs Let_def)

subsection \<open>What a successful sync does\<close>

lemma upload_file_frame:
  "upload_file src key md w = (r, w1) \<Longrightarrow>
     fs w1 = fs w \<and> fault w1 = fault w \<and> whoami w1 = whoami w \<and> error_log w1 = error_log w"
  by (auto simp: upload_file_def issue_def Let_def split: option.splits node.splits)

lemma upload_dirty_frame:
  "upload_dirty self ps w = (r, w1) \<Longrightarrow>
     fs w1 = fs w \<and> fault w1 = fault w \<and> whoami w1 = whoami w \<and> error_log w1 = error_log w"
proof (induction ps arbitrary: w)
  case Nil
  then show ?case by simp
next
  case (Cons p ps)
  then show ?case
    by (auto split: sum.splits prod.splits dest!: upload_file_frame)
qed

lemma sync_project_result:
  assumes "sync_project self w = (Inr v, w1)"
    and "default_module self = Some m" and "default_project self = Some p"
  shows "v = new_version (last_version self)
         \<and> map_of (s3 w1) (prefix self @ m @ ''/'' @ p)
             = Some (Meta_json v (whoami w), [(''Content-Type'', ''application/json'')])"
  using assms
  by (auto simp: sync_project_def Let_def upload_file_def issue_def
      split: prod.splits sum.splits option.splits node.splits
      dest!: ensure_local_path_frame lookup_written)

lemma sync_success:
  assumes "sync self w = (Inr b, self1, w1)"
  shows "b \<and> whoami w1 = whoami w
         \<and> (self1 = self \<or> self1 = self\<lparr>last_version := last_version self1\<rparr>)"
  using assms
  by (auto simp: sync_def sync_project_def Let_def
      split: if_splits prod.splits sum.splits option.splits
      dest!: get_remote_version_frame upload_dirty_frame ensure_local_path_frame upload_file_frame)

lemma sync_noop:
  "deleted_project self \<or> dirty self = [] \<Longrightarrow> sync self w = (Inr True, self, w)"
  by (simp add: sync_def)

lemma sync_dirty_success:
  assumes "sync self w = (Inr b, self1, w1)"
    and "dirty self \<noteq> []" and "\<not> deleted_project self"
    and "default_module self = Some m" and "default_project self = Some p"
    and "m \<noteq> []" and "p \<noteq> []"
  shows "self1 = self\<lparr>last_version := Some (new_version (last_version self))\<rparr>
         \<and> map_of (s3 w1) (prefix self @ m @ ''/'' @ p)
             = Some (Meta_json (new_version (last_version self)) (whoami w),
                     [(''Content-Type'', ''application/json'')])"
  using assms
  by (auto simp: sync_def truthy_def
      split: if_splits prod.splits sum.splits
      dest!: get_remote_version_frame upload_dirty_frame sync_project_result)

lemma first_sync_result:
  "first_sync =
     (Inr True, fresh_wrote_provider\<lparr>last_version := Some 0\<rparr>,
      \<lparr>s3 = [(''db/prod'', (Meta_json 0 ''alice@dev'', [(''Content-Type'', ''application/json'')])),
             (''db/prod/state.json'', (Raw [], [(''author'', ''alice@dev'')]))],
       fs = [(tmp_a @ [''db'', ''prod'', ''meta.json''], File (Meta_json 0 ''alice@dev'')),
             (tmp_a @ [''db'', ''prod'', ''state.json''], File (Raw [])),
             (tmp_a @ [''db'', ''prod''], Dir), (tmp_a @ [''db''], Dir),
             ([''tmp''], Dir), (tmp_a, Dir)],
       fault = (\<lambda>op. None),
       requests = [Download ''db/prod'', Download ''db/prod/state.json'', Download ''db/prod'',
                   Upload ''db/prod/state.json'', Upload ''db/prod''],
       whoami = ''alice@dev'', error_log = []\<rparr>)"
  by (simp add: first_sync_def aws_defs fs_defs s3_defs example_defs fresh_defs Let_def)

lemma second_sync_result:
  "fst second_sync = Inr True \<and> last_version (fst (snd second_sync)) = Some 1
   \<and> s3 (snd (snd second_sync)) =
       [(''db/prod'', (Meta_json 1 ''alice@dev'', [(''Content-Type'', ''application/json'')])),
        (''db/prod/state.json'', (Raw [], [(''author'', ''alice@dev'')]))]
   \<and> requests (snd (snd second_sync)) =
       requests (snd (snd first_sync)) @
       [Download ''db/prod'', Upload ''db/prod/state.json'', Upload ''db/prod'']"
  by (simp add: second_sync_def first_sync_result aws_defs fs_defs s3_defs example_defs
      fresh_defs Let_def)

subsection \<open>Leaving the scope\<close>

lemma a_sync_fails:
  "sync a_wrote_provider a_wrote_world =
     (Inl (DreamerException Remote_state_modified), a_wrote_provider,
      a_wrote_world\<lparr>fs := put_node (tmp_a @ [''db'', ''prod'', ''meta.json''])
                              (File (Meta_json 4 ''bob@ops'')) (fs a_wrote_world),
                    requests := requests a_wrote_world @ [Download ''db/prod'']\<rparr>)"
  by (simp add: aws_defs fs_defs s3_defs example_defs Let_def)

text \<open>
  When \<^verbatim>\<open>sync()\<close> fails and no exception is in flight, \<^verbatim>\<open>__exit__\<close> has already
  removed the staging directory (\<^verbatim>\<open>rmtree\<close> is guarded by \<^verbatim>\<open>exc_type is None\<close> alone)
  when it logs that the local state has not been removed.
\<close>

lemma exit_after_failed_sync_removes_staging:
  "fst a_exit_clean_scope = Inl (DreamerException Remote_state_modified)
   \<and> lookup (fs a_wrote_world) (tmp_a @ [''db'', ''prod'', ''b'']) = Some (File (Raw ''bbb''))
   \<and> fs (snd (snd a_exit_clean_scope)) = [([''tmp''], Dir)]
   \<and> error_log (snd (snd a_exit_clean_scope)) =
       [Local_state_not_removed tmp_a, Manual_recovery_hint]"
  by (simp add: a_exit_clean_scope_def aws_exit_def a_sync_fails)
    (simp add: fs_defs example_defs)

subsection \<open>Deleting a project\<close>

lemma prod_deleted_result:
  "prod_deleted =
     (Inr (),
      (new_provider [] tmp_a)
        \<lparr>bucket_contents_cache := Some [''db/prod'', ''db/prod/a'', ''db/prod/b'']\<rparr>,
      (example_world prod_bucket)
        \<lparr>s3 := [],
         requests := [ListObjects [], DeleteObject ''db/prod/a'', DeleteObject ''db/prod/b'',
                      DeleteObject ''db/prod'']\<rparr>)"
  by (simp add: prod_deleted_def aws_defs fs_defs s3_defs example_defs Let_def numeral_2_eq_2)

lemma list_objects_frame:
  "list_objects pre w = (r, w1) \<Longrightarrow>
     s3 w1 = s3 w \<and> fs w1 = fs w \<and> fault w1 = fault w \<and> whoami w1 = whoami w
     \<and> error_log w1 = error_log w"
  by (auto simp: list_objects_def issue_def Let_def split: option.splits)

lemma get_files_frame:
  "get_files self project module w = (r, self1, w1) \<Longrightarrow>
     s3 w1 = s3 w \<and> fs w1 = fs w \<and> fault w1 = fault w \<and> whoami w1 = whoami w
     \<and> error_log w1 = error_log w \<and> prefix self1 = prefix self"
  by (auto simp: get_files_def bucket_contents_def Let_def
      split: sum.splits prod.splits option.splits dest!: list_objects_frame)

lemma get_files_flag:
  "get_files (self\<lparr>deleted_project := d\<rparr>) (Some p) (Some m) w =
     (case get_files self (Some p) (Some m) w of
        (r, self1, w1) \<Rightarrow> (r, self1\<lparr>deleted_project := d\<rparr>, w1))"
  by (auto simp: get_files_def bucket_contents_def get_project_and_module_def py_get_def Let_def
      split: sum.splits prod.splits option.splits)

lemma get_files_flagged:
  "get_files self (Some p) (Some m) w = (r, self1, w1) \<Longrightarrow>
     \<exists>self2. get_files (if c then self\<lparr>deleted_project := True\<rparr> else self) (Some p) (Some m) w
               = (r, self2, w1)"
  by (cases c) (simp_all add: get_files_flag)

lemma delete_project_no_files:
  assumes "py_get module (default_module self) = Inr m"
    and "get_files self (Some project) (Some m) w = (Inr [], self1, w1)"
    and "fault w (DeleteObject (prefix self @ m @ ''/'' @ project)) = None"
  shows "fst (delete_project self project module True w) = Inr ()
         \<and> requests (snd (snd (delete_project self project module True w)))
             = requests w1 @ [DeleteObject (prefix self @ m @ ''/'' @ project)]
         \<and> s3 (snd (snd (delete_project self project module True w)))
             = filter (\<lambda>e. fst e \<noteq> prefix self @ m @ ''/'' @ project) (s3 w)
         \<and> error_log (snd (snd (delete_project self project module True w))) = error_log w"
proof -
  let ?flagged = "if Some project = default_project self \<and> Some m = default_module self
                  then self\<lparr>deleted_project := True\<rparr> else self"
  have pm: "get_project_and_module self (Some project) module = Inr (project, m)"
    using assms(1) by (simp add: get_project_and_module_def py_get_def)
  obtain self2 where g: "get_files ?flagged (Some project) (Some m) w = (Inr [], self2, w1)"
    using get_files_flagged [OF assms(2)] by blast
  have "fault w1 (DeleteObject (prefix self @ m @ ''/'' @ project)) = None" "s3 w1 = s3 w"
    "error_log w1 = error_log w"
    using get_files_frame [OF assms(2)] assms(3) by simp_all
  then show ?thesis
    by (simp add: delete_project_def pm g delete_object_def issue_def Let_def)
qed

lemma delete_project_flat:
  assumes "py_get module (default_module self) = Inr m"
    and "fault w (DeleteObject (prefix self @ m @ ''/'' @ project)) = None"
  shows "fst (delete_project self project module False w) = Inr ()
         \<and> requests (snd (snd (delete_project self project module False w)))
             = requests w @ [DeleteObject (prefix self @ m @ ''/'' @ project)]
         \<and> s3 (snd (snd (delete_project self project module False w)))
             = filter (\<lambda>e. fst e \<noteq> prefix self @ m @ ''/'' @ project) (s3 w)
         \<and> error_log (snd (snd (delete_project self project module False w))) = error_log w"
  using assms
  by (auto simp: delete_project_def get_project_and_module_def py_get_def
      delete_object_def issue_def Let_def split: option.splits)

lemma local_delete_project_cases:
  assumes "py_get module (local_default_module l) = Inr m"
  shows "(stat fsys (joinpath (joinpath (base_dir l) m) project) = Inr (t, Dir) \<and> t \<noteq> []
            \<and> glob_star fsys (joinpath (joinpath (base_dir l) m) project) = [] \<longrightarrow>
            fst (local_delete_project l project module recursive fsys) = Inr ()
            \<and> lookup (snd (local_delete_project l project module recursive fsys))
                 (joinpath (joinpath (base_dir l) m) project) = None)
       \<and> (stat fsys (joinpath (joinpath (base_dir l) m) project) = Inl e \<longrightarrow>
            local_delete_project l project module recursive fsys = (Inl e, fsys))
       \<and> (lookup fsys (joinpath (joinpath (base_dir l) m) project) = None \<longrightarrow>
            (fst (local_delete_project l project module recursive fsys) = Inl FileNotFoundError
             \<or> fst (local_delete_project l project module recursive fsys) = Inl NotADirectoryError)
            \<and> snd (local_delete_project l project module recursive fsys) = fsys)"
proof -
  let ?P = "joinpath (joinpath (base_dir l) m) project"
  have pm: "local_get_project_and_module l (Some project) module = Inr (project, m)"
    using assms by (simp add: local_get_project_and_module_def py_get_def)
  have failing: "local_delete_project l project module recursive fsys = (Inl e, fsys)"
    if "stat fsys ?P = Inl e" for e
    using that by (simp add: local_delete_project_def pm rmtree_def rmdir_def)
  have missing: "(fst (local_delete_project l project module recursive fsys) = Inl FileNotFoundError
             \<or> fst (local_delete_project l project module recursive fsys) = Inl NotADirectoryError)
            \<and> snd (local_delete_project l project module recursive fsys) = fsys"
    if "lookup fsys ?P = None"
  proof -
    from that obtain e where e: "stat fsys ?P = Inl e"
      by (auto simp: lookup_def split: sum.splits)
    from failing [OF e] stat_error [OF e] show ?thesis by auto
  qed
  have present: "fst (local_delete_project l project module recursive fsys) = Inr ()
      \<and> lookup (snd (local_delete_project l project module recursive fsys)) ?P = None"
    if d: "stat fsys ?P = Inr (t, Dir)" and t: "t \<noteq> []" and c: "glob_star fsys ?P = []"
  proof (cases recursive)
    case True
    from d t have r: "rmtree ?P fsys = Inr (filter (\<lambda>e. \<not> starts_with t (fst e)) fsys)"
      by (simp add: rmtree_def)
    from d t have "?P \<noteq> []"
      by (auto simp: stat_def)
    from rmtree_removes [OF r starts_with_self this] True r show ?thesis
      by (simp add: local_delete_project_def pm)
  next
    case False
    from d t c have r: "rmdir ?P fsys = Inr (filter (\<lambda>e. fst e \<noteq> t) fsys)"
      by (simp add: rmdir_def glob_star_def)
    from rmdir_removes [OF r] False r show ?thesis
      by (simp add: local_delete_project_def pm)
  qed
  from failing missing present show ?thesis by blast
qed

subsection \<open>Opening a project and fetching a file\<close>

lemma denied_opened_result:
  "denied_opened =
     (Inr (),
      (new_provider [] tmp_a)\<lparr>default_module := Some ''db'', default_project := Some ''prod''\<rparr>,
      denied_world\<lparr>fs := tl (fs a_opened_world), requests := [Download ''db/prod'']\<rparr>)"
  by (simp add: denied_opened_def denied_world_def aws_defs fs_defs s3_defs example_defs Let_def)


subsection \<open>Claims\<close>



text \<open>
  C2, as the code has it. A successful \<^verbatim>\<open>sync()\<close> returns true and leaves the dirty
  set as it was: nothing in the provider ever removes a path from it. With an empty
  dirty set, \<^verbatim>\<open>sync()\<close> changes nothing at all; with a non-empty one, on an open project
  that was not deleted, every successful \<^verbatim>\<open>sync()\<close> writes a metadata record whose
  version is one more than \<^verbatim>\<open>last_version\<close> (0 when there was none). So two successful
  calls in a row, with no write in between, increment the version twice.
\<close>

theorem sync_twice:
  assumes "sync self w = (Inr b1, self1, w1)" and "sync self1 w1 = (Inr b2, self2, w2)"
  shows "b1 \<and> b2 \<and> dirty self1 = dirty self \<and> dirty self2 = dirty self
     \<and> (dirty self = [] \<longrightarrow> self2 = self \<and> w2 = w)
     \<and> (dirty self \<noteq> [] \<and> \<not> deleted_project self \<and> default_module self = Some m
          \<and> default_project self = Some p \<and> m \<noteq> [] \<and> p \<noteq> [] \<longrightarrow>
          last_version self1 = Some (new_version (last_version self))
        \<and> last_version self2 = Some (new_version (last_version self) + 1)
        \<and> map_of (s3 w1) (prefix self @ m @ ''/'' @ p)
             = Some (Meta_json (new_version (last_version self)) (whoami w),
                     [(''Content-Type'', ''application/json'')])
        \<and> map_of (s3 w2) (prefix self @ m @ ''/'' @ p)
             = Some (Meta_json (new_version (last_version self) + 1) (whoami w),
                     [(''Content-Type'', ''application/json'')]))"
proof -
  note s1 = sync_success [OF assms(1)] and s2 = sync_success [OF assms(2)]
  have d1: "dirty self1 = dirty self"
    using s1 by (metis aws_provider.select_convs(5) aws_provider.surjective
        aws_provider.update_convs(7))
  have d2: "dirty self2 = dirty self1"
    using s2 by (metis aws_provider.select_convs(5) aws_provider.surjective
        aws_provider.update_convs(7))
  have empty: "self2 = self \<and> w2 = w" if "dirty self = []"
    using that assms by (simp add: sync_noop)
  have twice: "last_version self1 = Some (new_version (last_version self))
        \<and> last_version self2 = Some (new_version (last_version self) + 1)
        \<and> map_of (s3 w1) (prefix self @ m @ ''/'' @ p)
             = Some (Meta_json (new_version (last_version self)) (whoami w),
                     [(''Content-Type'', ''application/json'')])
        \<and> map_of (s3 w2) (prefix self @ m @ ''/'' @ p)
             = Some (Meta_json (new_version (last_version self) + 1) (whoami w),
                     [(''Content-Type'', ''application/json'')])"
    if h: "dirty self \<noteq> []" "\<not> deleted_project self" "default_module self = Some m"
      "default_project self = Some p" "m \<noteq> []" "p \<noteq> []"
  proof -
    note a = sync_dirty_success [OF assms(1) h]
    then have eq: "self1 = self\<lparr>last_version := Some (new_version (last_version self))\<rparr>"
      by simp
    have "dirty self1 \<noteq> []" "\<not> deleted_project self1" "default_module self1 = Some m"
      "default_project self1 = Some p"
      using h by (simp_all add: eq)
    note b = sync_dirty_success [OF assms(2) this h(5) h(6)]
    have "new_version (last_version self1) = new_version (last_version self) + 1"
      by (simp add: eq new_version_def)
    moreover have "prefix self1 = prefix self" by (simp add: eq)
    moreover have "whoami w1 = whoami w" using s1 by simp
    ultimately show ?thesis using a b by (simp add: eq)
  qed
  show ?thesis using s1 s2 d1 d2 empty twice by simp
qed

theorem sync_twice_witness:
  "last_version (fst (snd first_sync)) = Some 0 \<and> last_version (fst (snd second_sync)) = Some 1
   \<and> dirty (fst (snd second_sync)) = [tmp_a @ [''db'', ''prod'', ''state.json'']]
   \<and> map_of (s3 (snd (snd second_sync))) ''db/prod''
       = Some (Meta_json 1 ''alice@dev'', [(''Content-Type'', ''application/json'')])"
proof -
  have 1: "sync fresh_wrote_provider fresh_wrote_world
             = (Inr True, fst (snd first_sync), snd (snd first_sync))"
    unfolding first_sync_def [symmetric] by (simp add: first_sync_result)
  have 2: "sync (fst (snd first_sync)) (snd (snd first_sync))
             = (Inr True, fst (snd second_sync), snd (snd second_sync))"
    using second_sync_result by (simp add: second_sync_def prod_eq_iff)
  from sync_twice [OF 1 2, of "''db''" "''prod''"] show ?thesis
    by (simp add: fresh_defs example_defs new_version_def)
qed

text \<open>
  The claim as the specification states it fails on the fresh project: after the first
  \<^verbatim>\<open>sync()\<close>, which stored version 0, the dirty set is not empty, and the second
  \<^verbatim>\<open>sync()\<close> right after it uploads the file again and stores version 1.
\<close>

theorem sync_twice_counterexample:
  "fst first_sync = Inr True \<and> dirty (fst (snd first_sync)) \<noteq> []
   \<and> map_of (s3 (snd (snd first_sync))) ''db/prod''
       = Some (Meta_json 0 ''alice@dev'', [(''Content-Type'', ''application/json'')])
   \<and> fst second_sync = Inr True
   \<and> map_of (s3 (snd (snd second_sync))) ''db/prod''
       = Some (Meta_json 1 ''alice@dev'', [(''Content-Type'', ''application/json'')])
   \<and> requests (snd (snd second_sync)) =
       requests (snd (snd first_sync)) @
       [Download ''db/prod'', Upload ''db/prod/state.json'', Upload ''db/prod'']"
  using second_sync_result by (simp add: first_sync_result fresh_defs example_defs)

text \<open>
  C3. \<^verbatim>\<open>close_project\<close> calls \<^verbatim>\<open>sync_project\<close>, not \<^verbatim>\<open>sync\<close>. Closing process A's
  project with nothing staged replaces the record of version 3 by one of version 4.
  Closing it with file \<^verbatim>\<open>b\<close> staged, while the remote record has moved to version 4
  and A still holds version 3, raises nothing, uploads the metadata record only (the
  staged file is not uploaded) and overwrites the other process's record.
\<close>

theorem close_project_skips_sync:
  "dirty a_opened_provider = []
   \<and> map_of (s3 a_opened_world) ''db/prod''
       = Some (Meta_json 3 ''bob@ops'', [(''Content-Type'', ''application/json'')])
   \<and> fst a_closed = Inr ()
   \<and> map_of (s3 (snd (snd a_closed))) ''db/prod''
       = Some (Meta_json 4 ''alice@dev'', [(''Content-Type'', ''application/json'')])
   \<and> dirty a_wrote_provider = [tmp_a @ [''db'', ''prod'', ''b'']]
   \<and> last_version a_wrote_provider = Some 3
   \<and> map_of (s3 a_wrote_world) ''db/prod''
       = Some (Meta_json 4 ''bob@ops'', [(''Content-Type'', ''application/json'')])
   \<and> fst a_closed_dirty = Inr ()
   \<and> requests (snd (snd a_closed_dirty)) = requests a_wrote_world @ [Upload ''db/prod'']
   \<and> map_of (s3 (snd (snd a_closed_dirty))) ''db/prod''
       = Some (Meta_json 4 ''alice@dev'', [(''Content-Type'', ''application/json'')])"
  by (simp add: a_closed_def a_closed_dirty_def aws_defs fs_defs s3_defs example_defs Let_def)

text \<open>
  C4, as the code has it. \<^verbatim>\<open>__exit__\<close> calls \<^verbatim>\<open>sync()\<close>. If an exception is leaving
  the scope, the staging directory is not touched and its path is logged; the caller
  then sees the exception of \<^verbatim>\<open>sync()\<close> if \<^verbatim>\<open>sync()\<close> failed, and the exception that was
  leaving the scope otherwise. If no exception is leaving the scope and \<^verbatim>\<open>sync()\<close>
  succeeds, the staging directory and everything in it is removed, nothing is logged
  and the caller sees no exception.
\<close>

theorem aws_exit_cases:
  assumes "sync self w = (r, self1, w1)"
  shows "(exc \<noteq> None \<longrightarrow>
            aws_exit self exc w =
              (case r of Inl e \<Rightarrow> Inl e | Inr b \<Rightarrow> Inr False, self1,
               w1\<lparr>error_log := error_log w1 @
                     [Local_state_not_removed (local_dir self1), Manual_recovery_hint]\<rparr>)
          \<and> observed_exception exc (fst (aws_exit self exc w))
              = (case r of Inl e \<Rightarrow> Some e | Inr b \<Rightarrow> exc))
       \<and> (exc = None \<and> r = Inr b \<and> rmtree (local_dir self1) (fs w1) = Inr fs2 \<longrightarrow>
            aws_exit self exc w = (Inr False, self1, w1\<lparr>fs := fs2\<rparr>)
          \<and> observed_exception exc (fst (aws_exit self exc w)) = None
          \<and> (\<forall>q. q \<noteq> [] \<and> starts_with (local_dir self1) q \<longrightarrow> lookup fs2 q = None))"
  using assms
  by (auto simp: aws_exit_def observed_exception_def Let_def rmtree_removes split: sum.splits)

theorem aws_exit_cases_witness:
  "fst a_exit_in_flight = Inl (DreamerException Remote_state_modified)
   \<and> lookup (fs (snd (snd a_exit_in_flight))) (tmp_a @ [''db'', ''prod'', ''b''])
       = Some (File (Raw ''bbb''))
   \<and> error_log (snd (snd a_exit_in_flight)) = [Local_state_not_removed tmp_a, Manual_recovery_hint]
   \<and> fst fresh_exit = Inr False
   \<and> lookup (fs (snd (snd fresh_exit))) tmp_a = None
   \<and> lookup (fs (snd (snd fresh_exit))) (tmp_a @ [''db'', ''prod'', ''state.json'']) = None
   \<and> error_log (snd (snd fresh_exit)) = []"
proof -
  have 1: "sync fresh_wrote_provider fresh_wrote_world
             = (Inr True, fst (snd first_sync), snd (snd first_sync))"
    unfolding first_sync_def [symmetric] by (simp add: first_sync_result)
  have 2: "rmtree (local_dir (fst (snd first_sync))) (fs (snd (snd first_sync)))
             = Inr [([''tmp''], Dir)]"
    by (simp add: first_sync_result fresh_defs fs_defs example_defs)
  from aws_exit_cases [OF a_sync_fails, of "Some (OtherTransportError ''step failed'')"]
    aws_exit_cases [OF 1, of None True "[([''tmp''], Dir)]"] 2
  show ?thesis
    by (simp add: a_exit_in_flight_def fresh_exit_def first_sync_result)
      (simp add: fs_defs fresh_defs example_defs)
qed

text \<open>
  The claim as the specification states it fails when a step has failed and \<^verbatim>\<open>sync()\<close>
  fails as well: the caller sees the exception of \<^verbatim>\<open>sync()\<close>, not the one of the step.
\<close>

theorem aws_exit_counterexample:
  "fst a_exit_in_flight = Inl (DreamerException Remote_state_modified)
   \<and> observed_exception (Some (OtherTransportError ''step failed'')) (fst a_exit_in_flight)
       = Some (DreamerException Remote_state_modified)"
  by (simp add: a_exit_in_flight_def aws_exit_def a_sync_fails observed_exception_def)

text \<open>
  C5. The metadata record of \<^verbatim>\<open>db/prod\<close> is in the bucket at version 3, and the
  transport answers its download with a \<^verbatim>\<open>ClientError\<close> of code 403.
  \<^verbatim>\<open>open_project('db', 'prod')\<close> then raises nothing and leaves \<^verbatim>\<open>last_version\<close> at
  \<^verbatim>\<open>None\<close>, as for a project that has never been synced: \<^verbatim>\<open>get_remote_version\<close>
  catches every \<^verbatim>\<open>ClientError\<close>, whatever its code.
\<close>

theorem open_project_access_denied:
  "map_of (s3 denied_world) ''db/prod''
     = Some (Meta_json 3 ''bob@ops'', [(''Content-Type'', ''application/json'')])
   \<and> fault denied_world (Download ''db/prod'') = Some (ClientError ''403'')
   \<and> fst denied_opened = Inr ()
   \<and> last_version (fst (snd denied_opened)) = None
   \<and> requests (snd (snd denied_opened)) = [Download ''db/prod'']"
  by (simp add: denied_opened_result) (simp add: denied_world_def example_defs)




text \<open>
  C7. The local provider has the base directory \<^verbatim>\<open>srv/dreamer/state\<close> and the default
  project \<^verbatim>\<open>db/prod\<close>, on a disk without the directory \<^verbatim>\<open>srv\<close>. Its
  \<^verbatim>\<open>get_rw('state.json')\<close>, for a file that does not exist, raises
  \<^verbatim>\<open>FileNotFoundError\<close> and makes nothing: the base directory is made by a \<^verbatim>\<open>mkdir()\<close>
  that makes no parents. With the parent of the base directory on the disk the same
  call returns the path of the file. A name below a sub-directory that does not exist,
  \<^verbatim>\<open>get_rw('sub/state.json')\<close>, raises \<^verbatim>\<open>FileNotFoundError\<close> on both providers, from
  the \<^verbatim>\<open>touch()\<close> that is to make the empty file.
\<close>

theorem get_rw_raises_not_found:
  "\<not> exists_path [] (get_path state_store ''state.json'' ''prod'' ''db'')
   \<and> local_get_rw state_store ''state.json'' None None [] = (Inl FileNotFoundError, [])
   \<and> fst (local_get_rw state_store ''state.json'' None None
              [([''srv''], Dir), ([''srv'', ''dreamer''], Dir)])
       = Inr [''srv'', ''dreamer'', ''state'', ''db'', ''prod'', ''state.json'']
   \<and> fst (local_get_rw state_store ''sub/state.json'' None None state_store_disk)
       = Inl FileNotFoundError
   \<and> map_of (s3 fresh_opened_world) ''db/prod/sub/state.json'' = None
   \<and> fst (get_rw fresh_opened_provider ''sub/state.json'' None None fresh_opened_world)
       = Inl FileNotFoundError"
  by (simp add: state_store_def state_store_disk_def local_get_rw_def
      local_get_project_and_module_def mkdir_if_missing_def get_path_def
      aws_defs fs_defs s3_defs example_defs fresh_defs Let_def)

text \<open>
  C8. \<^verbatim>\<open>delete_project('prod', 'db', recursive=True)\<close> on the bucket with the record
  and the files \<^verbatim>\<open>a\<close> and \<^verbatim>\<open>b\<close> lists the bucket, deletes the two files and then the
  record, and the bucket is empty. \<^verbatim>\<open>project_exists('prod', 'db')\<close> on the same
  provider then still answers true, from the listing it has kept; a new provider
  answers false.
\<close>

theorem project_exists_after_delete:
  "fst prod_deleted = Inr ()
   \<and> requests (snd (snd prod_deleted)) =
       [ListObjects [], DeleteObject ''db/prod/a'', DeleteObject ''db/prod/b'',
        DeleteObject ''db/prod'']
   \<and> s3 (snd (snd prod_deleted)) = []
   \<and> fst prod_exists_after = Inr True
   \<and> fst (project_exists (new_provider [] tmp_a) ''prod'' (Some ''db'') (snd (snd prod_deleted)))
       = Inr False"
  by (simp add: prod_exists_after_def prod_deleted_result)
    (simp add: aws_defs s3_defs example_defs)

text \<open>
  C9, as the code has it. On the object-store provider, \<^verbatim>\<open>delete_project\<close> on a
  project for which no file is listed (and equally when it is not recursive) sends the
  deletion of the metadata key and nothing else after the listing; the object store
  accepts it for an absent key too, so unless the transport fails no error is raised;
  and nothing is logged. On the local provider, \<^verbatim>\<open>delete_project\<close> on a project
  directory that exists, is not the root directory and holds nothing removes the
  directory and raises no error. On a project directory that does not exist it raises
  the error of the resolution of its path, recursive or not, and changes nothing:
  \<^verbatim>\<open>FileNotFoundError\<close> when the directory or one on the way to it is missing,
  \<^verbatim>\<open>NotADirectoryError\<close> when a regular file is on the way.
\<close>

theorem delete_project_without_files:
  assumes "py_get module (default_module self) = Inr m"
    and "py_get module (local_default_module l) = Inr lm"
  shows "(get_files self (Some project) (Some m) w = (Inr [], self1, w1)
            \<and> fault w (DeleteObject (prefix self @ m @ ''/'' @ project)) = None \<longrightarrow>
          fst (delete_project self project module True w) = Inr ()
          \<and> requests (snd (snd (delete_project self project module True w)))
              = requests w1 @ [DeleteObject (prefix self @ m @ ''/'' @ project)]
          \<and> s3 (snd (snd (delete_project self project module True w)))
              = filter (\<lambda>e. fst e \<noteq> prefix self @ m @ ''/'' @ project) (s3 w)
          \<and> error_log (snd (snd (delete_project self project module True w))) = error_log w)
       \<and> (fault w (DeleteObject (prefix self @ m @ ''/'' @ project)) = None \<longrightarrow>
          fst (delete_project self project module False w) = Inr ()
          \<and> requests (snd (snd (delete_project self project module False w)))
              = requests w @ [DeleteObject (prefix self @ m @ ''/'' @ project)]
          \<and> s3 (snd (snd (delete_project self project module False w)))
              = filter (\<lambda>e. fst e \<noteq> prefix self @ m @ ''/'' @ project) (s3 w)
          \<and> error_log (snd (snd (delete_project self project module False w))) = error_log w)
       \<and> (stat fsys (joinpath (joinpath (base_dir l) lm) project) = Inr (t, Dir) \<and> t \<noteq> []
            \<and> glob_star fsys (joinpath (joinpath (base_dir l) lm) project) = [] \<longrightarrow>
          fst (local_delete_project l project module recursive fsys) = Inr ()
          \<and> lookup (snd (local_delete_project l project module recursive fsys))
               (joinpath (joinpath (base_dir l) lm) project) = None)
       \<and> (stat fsys (joinpath (joinpath (base_dir l) lm) project) = Inl e \<longrightarrow>
          local_delete_project l project module recursive fsys = (Inl e, fsys))
       \<and> (lookup fsys (joinpath (joinpath (base_dir l) lm) project) = None \<longrightarrow>
          (fst (local_delete_project l project module recursive fsys) = Inl FileNotFoundError
           \<or> fst (local_delete_project l project module recursive fsys) = Inl NotADirectoryError)
          \<and> snd (local_delete_project l project module recursive fsys) = fsys)"
  using delete_project_no_files [OF assms(1), of project w self1 w1]
    delete_project_flat [OF assms(1), of w project]
    local_delete_project_cases [OF assms(2), of fsys project t recursive e]
  by blast

theorem delete_project_without_files_witness:
  "fst (delete_project (new_provider [] tmp_a) ''prod'' (Some ''db'') True (example_world []))
     = Inr ()
   \<and> requests (snd (snd (delete_project (new_provider [] tmp_a) ''prod'' (Some ''db'') True
                            (example_world []))))
       = [ListObjects [], DeleteObject ''db/prod'']
   \<and> error_log (snd (snd (delete_project (new_provider [] tmp_a) ''prod'' (Some ''db'') True
                            (example_world [])))) = []
   \<and> fst (local_delete_project state_store ''prod'' (Some ''db'') True empty_project_disk) = Inr ()
   \<and> lookup (snd (local_delete_project state_store ''prod'' (Some ''db'') True empty_project_disk))
        [''srv'', ''dreamer'', ''state'', ''db'', ''prod''] = None
   \<and> local_delete_project state_store ''prod'' (Some ''db'') False state_store_disk
       = (Inl FileNotFoundError, state_store_disk)
   \<and> local_delete_project state_store ''prod'' (Some ''db'') True module_file_disk
       = (Inl NotADirectoryError, module_file_disk)"
proof -
  have 1: "py_get (Some ''db'') (default_module (new_provider [] tmp_a)) = Inr ''db''"
    "py_get (Some ''db'') (local_default_module state_store) = Inr ''db''"
    by (simp_all add: py_get_def)
  have 2: "get_files (new_provider [] tmp_a) (Some ''prod'') (Some ''db'') (example_world [])
             = (Inr [], (new_provider [] tmp_a)\<lparr>bucket_contents_cache := Some []\<rparr>,
                (example_world [])\<lparr>requests := [ListObjects []]\<rparr>)"
    by (simp add: aws_defs s3_defs example_defs Let_def)
  have 3: "fault (example_world []) (DeleteObject (prefix (new_provider [] tmp_a) @ ''db'' @ ''/'' @ ''prod''))
             = None"
    by (simp add: example_defs)
  let ?P = "joinpath (joinpath (base_dir state_store) ''db'') ''prod''"
  have 4: "stat empty_project_disk ?P = Inr ([''srv'', ''dreamer'', ''state'', ''db'', ''prod''], Dir)"
    "glob_star empty_project_disk ?P = []"
    "stat state_store_disk ?P = Inl FileNotFoundError"
    "stat module_file_disk ?P = Inl NotADirectoryError"
    by (simp_all add: empty_project_disk_def state_store_disk_def module_file_disk_def
        state_store_def fs_defs)
  have 5: "?P = [''srv'', ''dreamer'', ''state'', ''db'', ''prod'']"
    by (simp add: state_store_def fs_defs)
  from delete_project_without_files [OF 1, where project = "''prod''" and w = "example_world []"
      and fsys = empty_project_disk and recursive = True
      and t = "[''srv'', ''dreamer'', ''state'', ''db'', ''prod'']"] 2 3 4(1,2)
    delete_project_without_files [OF 1, where project = "''prod''" and fsys = state_store_disk
      and recursive = False and e = FileNotFoundError] 4(3)
    delete_project_without_files [OF 1, where project = "''prod''" and fsys = module_file_disk
      and recursive = True and e = NotADirectoryError] 4(4)
  show ?thesis
    by (simp add: 5) (simp add: example_defs)
qed

text \<open>
  The claim as the specification states it fails on the local provider for a project
  that does not exist: \<^verbatim>\<open>delete_project\<close> raises \<^verbatim>\<open>FileNotFoundError\<close>.
\<close>

theorem delete_project_without_files_counterexample:
  "lookup state_store_disk (joinpath (joinpath (base_dir state_store) ''db'') ''prod'') = None
   \<and> glob_star state_store_disk (joinpath (joinpath (base_dir state_store) ''db'') ''prod'') = []
   \<and> local_delete_project state_store ''prod'' (Some ''db'') True state_store_disk
       = (Inl FileNotFoundError, state_store_disk)
   \<and> local_delete_project state_store ''prod'' (Some ''db'') False state_store_disk
       = (Inl FileNotFoundError, state_store_disk)"
  by (simp add: state_store_def state_store_disk_def local_delete_project_def
      local_get_project_and_module_def py_get_def fs_defs)

text \<open>
  C10. On the object-store provider, \<^verbatim>\<open>module_exists(module)\<close> is true for every
  module string and every state of the provider, whatever the bucket holds; so it
  cannot tell an absent module from a present one.
\<close>

theorem module_exists_always_true: "module_exists self module = True"
  by (simp add: module_exists_def)

end
